theory Spec2Isabelle
  imports Complex_Main "HOL-Library.Word"
begin

unbundle bit_operations_syntax

type_synonym uint8_t = "8 word"
type_synonym uint16_t = "16 word"
type_synonym uint32_t = "32 word"

text \<open>
  Two drivers are modelled: the TSL2561 illuminance sensor on the register bus and the
  MH-Z19 carbon dioxide sensor on the serial line. Each method of a driver is a function
  from the fields it reads and the outcome of its bus reads to the fields it leaves and the
  calls it makes on its collaborators, in order. Names of the source that end in an
  underscore lose it here.
\<close>

section \<open>Single-precision arithmetic\<close>

text \<open>
  The \<^verbatim>\<open>float\<close> of the sources is IEEE 754 binary32. A value is not-a-number, an infinity
  (the flag says whether it is the negative one) or a finite number, kept as the rational
  it denotes. Each arithmetic operation computes the exact result and rounds it once, to
  the nearest binary32 value, ties to even; a result of magnitude \<open>2 ^ 128\<close> or more after
  rounding is an infinity. Zero carries no sign: the zeros this program divides by are the
  conversion of an unsigned channel count and the literal \<^verbatim>\<open>0.0f\<close>, both positive.
\<close>

datatype float = NaN | Infinity bool | Finite rat

text \<open>The number of binary digits of a positive integer.\<close>

function bit_length :: "int \<Rightarrow> int" where
  "bit_length n = (if n \<le> 0 then 0 else 1 + bit_length (n div 2))"
  by pat_completeness auto
termination
  by (relation "measure nat") auto

declare bit_length.simps [simp del]

definition round_half_even :: "rat \<Rightarrow> int" where
  "round_half_even x =
     (let f = \<lfloor>x\<rfloor>; d = x - of_int f
      in if d < 1 / 2 then f else if 1 / 2 < d then f + 1
         else if even f then f else f + 1)"

text \<open>
  The binary exponent of a magnitude \<open>a\<close>: the \<open>e\<close> with \<open>2 ^ e \<le> a < 2 ^ (e + 1)\<close>, and
  \<open>- 126\<close> for everything below the normal range. A binary32 value with this exponent is
  a multiple of \<open>2 ^ (e - 23)\<close>.
\<close>

definition float_exponent :: "rat \<Rightarrow> int" where
  "float_exponent a = max (- 126) (bit_length \<lfloor>a * 2 ^ 126\<rfloor> - 127)"

definition round_float :: "rat \<Rightarrow> float" where
  "round_float x =
     (let a = \<bar>x\<bar>; ulp = 2 powi (float_exponent a - 23);
          r = of_int (round_half_even (a / ulp)) * ulp
      in if 2 ^ 128 \<le> r then Infinity (x < 0) else Finite (if x < 0 then - r else r))"

text \<open>A decimal literal with suffix \<^verbatim>\<open>f\<close>: the binary32 value nearest to it.\<close>

definition float_literal :: "rat \<Rightarrow> float" where
  "float_literal x = round_float x"

text \<open>
  \<^verbatim>\<open>float d0 = ch0\<close>: a 16-bit count is below \<open>2 ^ 24\<close>, so the conversion is exact.
\<close>

definition float_of_uint16 :: "uint16_t \<Rightarrow> float" where
  "float_of_uint16 n = Finite (of_int (uint n))"

definition float_of_int :: "int \<Rightarrow> float" where
  "float_of_int n = round_float (of_int n)"

fun float_neg :: "float \<Rightarrow> float" where
  "float_neg NaN = NaN"
| "float_neg (Infinity s) = Infinity (\<not> s)"
| "float_neg (Finite a) = Finite (- a)"

fun float_add :: "float \<Rightarrow> float \<Rightarrow> float" where
  "float_add (Finite a) (Finite b) = round_float (a + b)"
| "float_add (Finite a) (Infinity t) = Infinity t"
| "float_add (Infinity s) (Finite b) = Infinity s"
| "float_add (Infinity s) (Infinity t) = (if s = t then Infinity s else NaN)"
| "float_add NaN y = NaN"
| "float_add x NaN = NaN"

definition float_sub :: "float \<Rightarrow> float \<Rightarrow> float" where
  "float_sub x y = float_add x (float_neg y)"

fun float_mul :: "float \<Rightarrow> float \<Rightarrow> float" where
  "float_mul (Finite a) (Finite b) = round_float (a * b)"
| "float_mul (Finite a) (Infinity t) = (if a = 0 then NaN else Infinity (t \<noteq> (a < 0)))"
| "float_mul (Infinity s) (Finite b) = (if b = 0 then NaN else Infinity (s \<noteq> (b < 0)))"
| "float_mul (Infinity s) (Infinity t) = Infinity (s \<noteq> t)"
| "float_mul NaN y = NaN"
| "float_mul x NaN = NaN"

text \<open>
  Division does not trap: a non-zero number over zero is an infinity, zero over zero is
  not-a-number.
\<close>

fun float_div :: "float \<Rightarrow> float \<Rightarrow> float" where
  "float_div (Finite a) (Finite b) =
     (if b = 0 then (if a = 0 then NaN else Infinity (a < 0)) else round_float (a / b))"
| "float_div (Finite a) (Infinity t) = Finite 0"
| "float_div (Infinity s) (Finite b) = Infinity (s \<noteq> (b < 0))"
| "float_div (Infinity s) (Infinity t) = NaN"
| "float_div NaN y = NaN"
| "float_div x NaN = NaN"

text \<open>The comparisons \<^verbatim>\<open><\<close> and \<^verbatim>\<open><=\<close>: false whenever an operand is not-a-number.\<close>

fun float_less :: "float \<Rightarrow> float \<Rightarrow> bool" where
  "float_less (Finite a) (Finite b) = (a < b)"
| "float_less (Finite a) (Infinity t) = (\<not> t)"
| "float_less (Infinity s) (Finite b) = s"
| "float_less (Infinity s) (Infinity t) = (s \<and> \<not> t)"
| "float_less NaN y = False"
| "float_less x NaN = False"

fun float_less_eq :: "float \<Rightarrow> float \<Rightarrow> bool" where
  "float_less_eq (Finite a) (Finite b) = (a \<le> b)"
| "float_less_eq (Finite a) (Infinity t) = (\<not> t)"
| "float_less_eq (Infinity s) (Finite b) = s"
| "float_less_eq (Infinity s) (Infinity t) = (s \<or> \<not> t)"
| "float_less_eq NaN y = False"
| "float_less_eq x NaN = False"

text \<open>
  Conversion to \<^verbatim>\<open>uint32_t\<close> drops the fraction. It is undefined (\<open>None\<close>) when the
  truncated value is not a 32-bit unsigned number.
\<close>

fun float_to_uint32 :: "float \<Rightarrow> uint32_t option" where
  "float_to_uint32 (Finite a) =
     (if - 1 < a \<and> a < 2 ^ 32 then Some (word_of_int (if a < 0 then 0 else \<lfloor>a\<rfloor>)) else None)"
| "float_to_uint32 x = None"

section \<open>TSL2561 illuminance sensor (tsl2561_sensor.cpp)\<close>

subsection \<open>Configuration and registers\<close>

text \<open>The two gains; the source only compares \<^verbatim>\<open>gain_\<close> with them.\<close>

datatype TSL2561Gain = TSL2561_GAIN_1X | TSL2561_GAIN_16X

text \<open>
  The header that declares \<^verbatim>\<open>enum TSL2561IntegrationTime\<close> is not among the sources, so
  the values of its three enumerators are a parameter \<open>h\<close> of everything that mentions
  them. The field \<^verbatim>\<open>integration_time_\<close> holds the number itself: the source masks it
  with \<^verbatim>\<open>0b11\<close> and falls out of its \<^verbatim>\<open>switch\<close> for any other value.
\<close>

record tsl2561_header =
  TSL2561_INTEGRATION_14MS :: uint32_t
  TSL2561_INTEGRATION_101MS :: uint32_t
  TSL2561_INTEGRATION_402MS :: uint32_t

text \<open>
  The fields of \<^verbatim>\<open>TSL2561Sensor\<close>: the three settings and the failed bit of the component
  status.
\<close>

record tsl2561 =
  integration_time :: uint32_t
  gain :: TSL2561Gain
  package_cs :: bool
  failed :: bool

definition TSL2561_REGISTER_CONTROL :: uint8_t where
  "TSL2561_REGISTER_CONTROL = 0x00"

definition TSL2561_REGISTER_TIMING :: uint8_t where
  "TSL2561_REGISTER_TIMING = 0x01"

text \<open>
  The calls the sensor makes, in order: register reads and writes on the bus,
  \<^verbatim>\<open>mark_failed\<close>, and \<^verbatim>\<open>set_timeout\<close> with its key and delay in milliseconds (the callback
  is always \<^verbatim>\<open>read_data_\<close>).
\<close>

datatype tsl2561_event =
    I2c_read_byte uint8_t
  | I2c_write_byte uint8_t uint8_t
  | Mark_failed
  | Set_timeout string uint32_t

subsection \<open>setup\<close>

text \<open>
  \<^verbatim>\<open>TSL2561Sensor::setup\<close>. The argument \<open>rd\<close> is the outcome of
  \<^verbatim>\<open>read_byte(TSL2561_REGISTER_TIMING, &timing)\<close>: \<open>None\<close> when the device does not
  acknowledge, the byte read otherwise. The mask cleared is \<^verbatim>\<open>0b00010000\<close> (0x10); the
  literal ORed in for the high gain is \<^verbatim>\<open>0b0001000\<close>, seven digits, which is 0x08.
\<close>

definition TSL2561Sensor_setup ::
  "tsl2561 \<Rightarrow> uint8_t option \<Rightarrow> tsl2561 \<times> tsl2561_event list" where
  "TSL2561Sensor_setup s rd =
     (case rd of
        None \<Rightarrow> (s\<lparr>failed := True\<rparr>, [I2c_read_byte TSL2561_REGISTER_TIMING, Mark_failed])
      | Some timing \<Rightarrow>
          (let timing = timing AND NOT 0x10;
               timing = timing OR (if gain s = TSL2561_GAIN_16X then 0x08 else 0);
               timing = timing AND NOT 0x03;
               timing = timing OR ucast (integration_time s AND 0x03)
           in (s, [I2c_read_byte TSL2561_REGISTER_TIMING,
                   I2c_write_byte TSL2561_REGISTER_TIMING timing])))"

subsection \<open>update\<close>

text \<open>
  \<^verbatim>\<open>get_integration_time_ms_\<close>. The three enumerators are the labels of one \<^verbatim>\<open>switch\<close>, so
  they are distinct in any header the source compiles with, and the chain of tests below
  takes the branch the \<^verbatim>\<open>switch\<close> takes; the last line is the \<^verbatim>\<open>return 0.0f\<close> after it.
\<close>

definition get_integration_time_ms :: "tsl2561_header \<Rightarrow> tsl2561 \<Rightarrow> float" where
  "get_integration_time_ms h s =
     (if integration_time s = TSL2561_INTEGRATION_14MS h then float_literal 13.7
      else if integration_time s = TSL2561_INTEGRATION_101MS h then float_literal 100.0
      else if integration_time s = TSL2561_INTEGRATION_402MS h then float_literal 402.0
      else float_literal 0.0)"

text \<open>
  \<^verbatim>\<open>TSL2561Sensor::update\<close>. The sum is a \<^verbatim>\<open>float\<close>; initialising the \<^verbatim>\<open>uint32_t timeout\<close>
  with it converts it. The result is \<open>None\<close> should that conversion be undefined, and the
  calls made otherwise.
\<close>

definition TSL2561Sensor_update ::
  "tsl2561_header \<Rightarrow> tsl2561 \<Rightarrow> tsl2561_event list option" where
  "TSL2561Sensor_update h s =
     (case float_to_uint32 (float_add (get_integration_time_ms h s) (float_literal 20.0)) of
        None \<Rightarrow> None
      | Some timeout \<Rightarrow>
          Some [I2c_write_byte TSL2561_REGISTER_CONTROL 0x03,
                Set_timeout ''illuminance'' timeout])"

subsection \<open>The lux calculation\<close>

text \<open>
  \<^verbatim>\<open>TSL2561Sensor::calculate_lx_\<close>. The library function \<^verbatim>\<open>powf\<close> is a parameter. An
  expression such as \<^verbatim>\<open>0.0315f * d0 - 0.0593f * d0 * powf(ratio, 1.4f)\<close> is read the way
  C++ groups it, every operation rounding on its own.
\<close>

definition calculate_lx ::
  "(float \<Rightarrow> float \<Rightarrow> float) \<Rightarrow> tsl2561_header \<Rightarrow> tsl2561 \<Rightarrow> uint16_t \<Rightarrow> uint16_t
     \<Rightarrow> float" where
  "calculate_lx powf h s ch0 ch1 =
     (if ch0 = 0xFFFF \<or> ch1 = 0xFFFF then NaN
      else
        (let d0 = float_of_uint16 ch0; d1 = float_of_uint16 ch1;
             ratio = float_div d1 d0;
             ms = get_integration_time_ms h s;
             d0 = float_mul d0 (float_div (float_literal 402.0) ms);
             d1 = float_mul d1 (float_div (float_literal 402.0) ms);
             d0 = (if gain s = TSL2561_GAIN_1X then float_mul d0 (float_of_int 16) else d0);
             d1 = (if gain s = TSL2561_GAIN_1X then float_mul d1 (float_of_int 16) else d1)
         in if package_cs s
            then
              (if float_less ratio (float_literal 0.52)
               then float_sub (float_mul (float_literal 0.0315) d0)
                      (float_mul (float_mul (float_literal 0.0593) d0)
                         (powf ratio (float_literal 1.4)))
               else if float_less ratio (float_literal 0.65)
               then float_sub (float_mul (float_literal 0.0229) d0)
                      (float_mul (float_literal 0.0291) d1)
               else if float_less ratio (float_literal 0.80)
               then float_sub (float_mul (float_literal 0.0157) d0)
                      (float_mul (float_literal 0.0153) d1)
               else if float_less ratio (float_literal 1.30)
               then float_sub (float_mul (float_literal 0.00338) d0)
                      (float_mul (float_literal 0.00260) d1)
               else float_literal 0.0)
            else
              (if float_less ratio (float_literal 0.5)
               then float_sub (float_mul (float_literal 0.0304) d0)
                      (float_mul (float_mul (float_literal 0.062) d0)
                         (powf ratio (float_literal 1.4)))
               else if float_less ratio (float_literal 0.61)
               then float_sub (float_mul (float_literal 0.0224) d0)
                      (float_mul (float_literal 0.031) d1)
               else if float_less ratio (float_literal 0.80)
               then float_sub (float_mul (float_literal 0.0128) d0)
                      (float_mul (float_literal 0.0153) d1)
               else if float_less ratio (float_literal 1.30)
               then float_sub (float_mul (float_literal 0.00146) d0)
                      (float_mul (float_literal 0.00112) d1)
               else float_literal 0.0)))"

text \<open>
  The locals of \<^verbatim>\<open>calculate_lx_\<close> as functions of the raw counts, to state its properties:
  \<^verbatim>\<open>ratio\<close>, and \<^verbatim>\<open>d0\<close> or \<^verbatim>\<open>d1\<close> after the scaling by integration time and gain.
\<close>

definition channel_ratio :: "uint16_t \<Rightarrow> uint16_t \<Rightarrow> float" where
  "channel_ratio ch0 ch1 = float_div (float_of_uint16 ch1) (float_of_uint16 ch0)"

definition channel_scaled :: "tsl2561_header \<Rightarrow> tsl2561 \<Rightarrow> uint16_t \<Rightarrow> float" where
  "channel_scaled h s ch =
     (let d = float_mul (float_of_uint16 ch)
                (float_div (float_literal 402.0) (get_integration_time_ms h s))
      in if gain s = TSL2561_GAIN_1X then float_mul d (float_of_int 16) else d)"

subsection \<open>Concrete configurations\<close>

text \<open>
  An instance of the header, numbering the integration times as the INTEG field of the
  timing register does, and four sensors: the one of the end-to-end scenario (high gain,
  101 ms, standard package), a CS-package one at 402 ms and low gain, a high-gain one at
  402 ms and one at 14 ms.
\<close>

definition datasheet_header :: tsl2561_header where
  "datasheet_header = \<lparr>TSL2561_INTEGRATION_14MS = 0, TSL2561_INTEGRATION_101MS = 1,
                         TSL2561_INTEGRATION_402MS = 2\<rparr>"

definition scenario_a_sensor :: tsl2561 where
  "scenario_a_sensor = \<lparr>integration_time = 1, gain = TSL2561_GAIN_16X, package_cs = False,
                          failed = False\<rparr>"

definition cs_sensor :: tsl2561 where
  "cs_sensor = \<lparr>integration_time = 2, gain = TSL2561_GAIN_1X, package_cs = True,
                  failed = False\<rparr>"

definition high_gain_sensor :: tsl2561 where
  "high_gain_sensor = \<lparr>integration_time = 2, gain = TSL2561_GAIN_16X, package_cs = False,
                         failed = False\<rparr>"

definition fast_sensor :: tsl2561 where
  "fast_sensor = \<lparr>integration_time = 0, gain = TSL2561_GAIN_16X, package_cs = False,
                    failed = False\<rparr>"

section \<open>MH-Z19 carbon dioxide sensor (mhz19_component.cpp)\<close>

subsection \<open>Constants and the frame checksum\<close>

definition MHZ19_REQUEST_LENGTH :: nat where
  "MHZ19_REQUEST_LENGTH = 8"

definition MHZ19_RESPONSE_LENGTH :: nat where
  "MHZ19_RESPONSE_LENGTH = 9"

definition MHZ19_COMMAND_GET_PPM :: "uint8_t list" where
  "MHZ19_COMMAND_GET_PPM = [0xFF, 0x01, 0x86, 0x00, 0x00, 0x00, 0x00, 0x00]"

definition MHZ19_COMMAND_ABC_DISABLE :: "uint8_t list" where
  "MHZ19_COMMAND_ABC_DISABLE = [0xFF, 0x01, 0x79, 0x00, 0x00, 0x00, 0x00, 0x00, 0x86]"

text \<open>
  The loop \<^verbatim>\<open>for (uint8_t i = 1; i < MHZ19_REQUEST_LENGTH; i++) sum += command[i];\<close>
  with its counter and its 8-bit accumulator \<^verbatim>\<open>sum\<close> (here \<open>acc\<close>) as arguments.
  Every array the source passes (the two command tables and a response of nine bytes) has
  at least eight elements, so the reads \<open>command ! i\<close> stay in range.
\<close>

function mhz19_checksum_loop :: "uint8_t list \<Rightarrow> nat \<Rightarrow> uint8_t \<Rightarrow> uint8_t" where
  "mhz19_checksum_loop command i acc =
     (if i < MHZ19_REQUEST_LENGTH
      then mhz19_checksum_loop command (i + 1) (acc + command ! i)
      else acc)"
  by pat_completeness auto
termination
  by (relation "measure (\<lambda>(command, i, acc). MHZ19_REQUEST_LENGTH - i)") auto

declare mhz19_checksum_loop.simps [simp del]

definition mhz19_checksum :: "uint8_t list \<Rightarrow> uint8_t" where
  "mhz19_checksum command = 0xFF - mhz19_checksum_loop command 1 0 + 0x01"

subsection \<open>The serial line\<close>

text \<open>
  What the component does to the outside world, in the order it does it: the calls on the
  serial device, the status calls and the values handed to the two sensors.
\<close>

datatype event =
    Flush
  | Write_array "uint8_t list"
  | Write_byte uint8_t
  | Read_array nat
  | Status_set_warning
  | Status_clear_warning
  | Publish_co2 int
  | Publish_temperature int

text \<open>
  Modelled from the spec: the serial device itself (\<^verbatim>\<open>UARTDevice::read_array\<close>) is not part
  of the sources; the specification gives \<^verbatim>\<open>read_frame(count, timeout) -> (bytes, ok)\<close>.
  The argument \<open>rx\<close> is the bytes that arrive on the line before the timeout: the read
  succeeds with the first \<open>len\<close> of them, and fails when fewer arrive.
\<close>

definition read_array :: "nat \<Rightarrow> uint8_t list \<Rightarrow> uint8_t list option" where
  "read_array len rx = (if length rx < len then None else Some (take len rx))"

text \<open>
  \<^verbatim>\<open>mhz19_write_command_(command, response)\<close>. The flag \<open>response_given\<close> is
  \<^verbatim>\<open>response != nullptr\<close>. The result is the events, the returned flag and the bytes stored
  into the response buffer (none when the read failed: the source does not look at the
  buffer then).
\<close>

definition mhz19_write_command ::
  "uint8_t list \<Rightarrow> bool \<Rightarrow> uint8_t list \<Rightarrow> event list \<times> bool \<times> uint8_t list" where
  "mhz19_write_command command response_given rx =
     (let sent = [Flush, Write_array (take MHZ19_REQUEST_LENGTH command),
                  Write_byte (mhz19_checksum command)]
      in if \<not> response_given then (sent, True, [])
         else (case read_array MHZ19_RESPONSE_LENGTH rx of
                 None \<Rightarrow> (sent @ [Read_array MHZ19_RESPONSE_LENGTH, Flush], False, [])
               | Some response \<Rightarrow>
                   (sent @ [Read_array MHZ19_RESPONSE_LENGTH, Flush], True, response)))"

subsection \<open>The component and its update\<close>

text \<open>
  The fields of \<^verbatim>\<open>MHZ19Component\<close> that \<^verbatim>\<open>update\<close> reads or writes: the warning bit of
  the component status, the two sticky flags, and whether \<^verbatim>\<open>temperature_sensor_\<close> is set.
\<close>

record mhz19 =
  warning :: bool
  model_b :: bool
  abc_disabled :: bool
  temperature_sensor :: bool

text \<open>Lines 239 to 254 of \<^verbatim>\<open>update\<close>: checksum validation, decoding and publishing.\<close>

definition update_validate ::
  "mhz19 \<Rightarrow> event list \<Rightarrow> uint8_t list \<Rightarrow> mhz19 \<times> event list" where
  "update_validate s ev response =
     (let checksum = mhz19_checksum response
      in if response ! 8 \<noteq> checksum
         then (s\<lparr>warning := True\<rparr>, ev @ [Status_set_warning])
         else
           (let ppm :: uint16_t = push_bit 8 (ucast (response ! 2)) OR ucast (response ! 3);
                temp :: int = uint (response ! 4) - 40
            in (s\<lparr>warning := False\<rparr>,
                ev @ [Status_clear_warning, Publish_co2 (uint ppm)]
                   @ (if temperature_sensor s then [Publish_temperature temp] else []))))"

text \<open>
  \<^verbatim>\<open>MHZ19Component::update\<close>. \<open>rx\<close> is what arrives in answer to the read command and
  \<open>rx_ack\<close> what arrives in answer to the disable-ABC command, should it be sent. Each
  \<^verbatim>\<open>return\<close> of the source is a branch that ends here.
\<close>

definition MHZ19Component_update :: "mhz19 \<Rightarrow> uint8_t list \<Rightarrow> uint8_t list \<Rightarrow> mhz19 \<times> event list" where
  "MHZ19Component_update s rx rx_ack =
     (case mhz19_write_command MHZ19_COMMAND_GET_PPM True rx of (ev, ret, response) \<Rightarrow>
        if \<not> ret then (s\<lparr>warning := True\<rparr>, ev @ [Status_set_warning])
        else if response ! 0 \<noteq> 0xFF \<or> response ! 1 \<noteq> 0x86
        then (s\<lparr>warning := True\<rparr>, ev @ [Status_set_warning])
        else
          (let u :: uint16_t = push_bit 8 (ucast (response ! 6)) + ucast (response ! 7)
           in if u = 15000 then (s, ev)
              else
                (let s1 = (if response ! 5 = 0 \<and> model_b s = False
                           then s\<lparr>model_b := True\<rparr> else s)
                 in if model_b s1 \<and> abc_disabled s1 = False
                    then (case mhz19_write_command MHZ19_COMMAND_ABC_DISABLE True rx_ack of
                            (ev_ack, ret_ack, abc_ack) \<Rightarrow>
                              if \<not> ret_ack then (s1, ev @ ev_ack)
                              else update_validate (s1\<lparr>abc_disabled := True\<rparr>)
                                     (ev @ ev_ack) response)
                    else update_validate s1 ev response)))"

text \<open>Successive update cycles, each with the bytes that arrive in it.\<close>

fun MHZ19Component_updates :: "mhz19 \<Rightarrow> (uint8_t list \<times> uint8_t list) list \<Rightarrow> mhz19 \<times> event list" where
  "MHZ19Component_updates s [] = (s, [])"
| "MHZ19Component_updates s ((rx, rx_ack) # cycles) =
     (case MHZ19Component_update s rx rx_ack of (s', ev) \<Rightarrow>
        (case MHZ19Component_updates s' cycles of (s'', ev') \<Rightarrow> (s'', ev @ ev')))"

text \<open>What a run of events published, and whether it raised the warning.\<close>

fun is_publish :: "event \<Rightarrow> bool" where
  "is_publish (Publish_co2 v) = True"
| "is_publish (Publish_temperature v) = True"
| "is_publish e = False"

definition published :: "event list \<Rightarrow> event list" where
  "published ev = filter is_publish ev"

subsection \<open>Concrete frames and states\<close>

text \<open>
  The response of the end-to-end scenario with a correct checksum, the same response with a
  wrong last byte, a response whose bytes 6 and 7 read 15000 (0x3A98), an acknowledgement of
  the disable-ABC command, and a freshly constructed component.
\<close>

definition scenario_b_response :: "uint8_t list" where
  "scenario_b_response =
     [0xFF, 0x86, 0x01, 0x90, 0x28, 0x00, 0x00, 0x00]
       @ [mhz19_checksum [0xFF, 0x86, 0x01, 0x90, 0x28, 0x00, 0x00, 0x00]]"

definition scenario_c_response :: "uint8_t list" where
  "scenario_c_response = [0xFF, 0x86, 0x01, 0x90, 0x28, 0x00, 0x00, 0x00, 0x00]"

definition abc_ack_response :: "uint8_t list" where
  "abc_ack_response = [0xFF, 0x79, 0x01, 0x00, 0x00, 0x00, 0x00, 0x00, 0x86]"

definition mhz19_initial :: mhz19 where
  "mhz19_initial = \<lparr>warning = False, model_b = False, abc_disabled = False,
                     temperature_sensor = False\<rparr>"

definition booting_response :: "uint8_t list" where
  "booting_response = [0xFF, 0x86, 0x01, 0x90, 0x28, 0x00, 0x3A, 0x98, 0x7F]"

section \<open>Properties of the TSL2561 sensor\<close>

subsection \<open>Facts about the arithmetic\<close>

lemma float_literal_zero: "float_literal 0 = Finite 0"
  unfolding float_literal_def by code_simp

lemma float_less_NaN [simp]: "float_less NaN y = False"
  by (cases y) simp_all

lemma float_less_Pos_inf [simp]: "float_less (Infinity False) y = False"
  by (cases y) simp_all

lemma float_less_irrefl [simp]: "float_less x x = False"
  by (cases x) simp_all

lemma float_less_eq_not_less:
  "float_less_eq a r \<Longrightarrow> float_less_eq t a \<Longrightarrow> \<not> float_less r t"
  by (cases a; cases r; cases t) auto

lemma integration_time_values:
  "float_literal 13.7 = Finite (14365491 / 2 ^ 20)"
  "float_literal 100.0 = Finite 100"
  "float_literal 402.0 = Finite 402"
  unfolding float_literal_def by code_simp+

lemma guard_band_sums:
  "float_add (float_literal 13.7) (float_literal 20.0) = Finite (8834253 / 2 ^ 18)"
  "float_add (float_literal 100.0) (float_literal 20.0) = Finite 120"
  "float_add (float_literal 402.0) (float_literal 20.0) = Finite 422"
  "float_add (float_literal 0.0) (float_literal 20.0) = Finite 20"
  unfolding float_literal_def by code_simp+

lemma timeouts:
  "float_to_uint32 (float_add (float_literal 13.7) (float_literal 20.0)) = Some 33"
  "float_to_uint32 (float_add (float_literal 100.0) (float_literal 20.0)) = Some 120"
  "float_to_uint32 (float_add (float_literal 402.0) (float_literal 20.0)) = Some 422"
  "float_to_uint32 (float_add (float_literal 0.0) (float_literal 20.0)) = Some 20"
  unfolding float_literal_def by code_simp+

lemma thresholds_ordered:
  "float_less (float_literal 0.52) (float_literal 0.65)"
  "float_less_eq (float_literal 0.52) (float_literal 1.30)"
  "float_less_eq (float_literal 0.65) (float_literal 1.30)"
  "float_less_eq (float_literal 0.80) (float_literal 1.30)"
  "float_less_eq (float_literal 1.30) (float_literal 1.30)"
  "float_less_eq (float_literal 0.5) (float_literal 1.30)"
  "float_less_eq (float_literal 0.61) (float_literal 1.30)"
  unfolding float_literal_def by code_simp+

lemma thresholds_strict:
  "float_less (float_literal 0.65) (float_literal 0.80)"
  "float_less (float_literal 0.80) (float_literal 1.30)"
  "float_less (float_literal 0.5) (float_literal 0.61)"
  "float_less (float_literal 0.61) (float_literal 0.80)"
  "\<not> float_less (float_literal 0.65) (float_literal 0.52)"
  "\<not> float_less (float_literal 0.80) (float_literal 0.52)"
  "\<not> float_less (float_literal 0.80) (float_literal 0.65)"
  "\<not> float_less (float_literal 0.61) (float_literal 0.5)"
  "\<not> float_less (float_literal 0.80) (float_literal 0.5)"
  "\<not> float_less (float_literal 0.80) (float_literal 0.61)"
  unfolding float_literal_def by code_simp+

lemma boundary_ratios:
  "float_div (float_of_uint16 1) (float_of_uint16 2) = float_literal 0.5"
  "float_div (float_of_uint16 700) (float_of_uint16 1000) = float_literal 0.7"
  "\<not> float_less (float_literal 0.7) (float_literal 0.5)"
  "\<not> float_less (float_literal 0.7) (float_literal 0.61)"
  "float_less (float_literal 0.7) (float_literal 0.80)"
  "float_less (float_literal 0.3) (float_literal 0.52)"
  unfolding float_literal_def float_of_uint16_def by code_simp+

lemma scenario_a_values:
  "float_mul (float_of_uint16 1000) (float_div (float_literal 402.0) (float_literal 100.0))
     = Finite 4020"
  "float_div (float_of_uint16 300) (float_of_uint16 1000) = float_literal 0.3"
  "float_less (float_literal 0.3) (float_literal 0.5)"
  "float_div (float_of_uint16 13) (float_of_uint16 25) = float_literal 0.52"
  unfolding float_literal_def float_of_uint16_def by code_simp+

subsection \<open>setup\<close>

lemma setup_no_ack:
  "TSL2561Sensor_setup s None =
     (s\<lparr>failed := True\<rparr>, [I2c_read_byte TSL2561_REGISTER_TIMING, Mark_failed])"
  by (simp add: TSL2561Sensor_setup_def)

lemma setup_ack:
  "TSL2561Sensor_setup s (Some timing) =
     (s, [I2c_read_byte TSL2561_REGISTER_TIMING,
          I2c_write_byte TSL2561_REGISTER_TIMING
            ((((timing AND NOT 0x10) OR (if gain s = TSL2561_GAIN_16X then 0x08 else 0))
                AND NOT 0x03) OR ucast (integration_time s AND 0x03))])"
  by (simp add: TSL2561Sensor_setup_def Let_def)

lemma timing_written_bits:
  "bit ((((timing AND NOT 0x10) OR (if gain s = TSL2561_GAIN_16X then 0x08 else 0))
           AND NOT 0x03) OR (ucast (integration_time s AND 0x03) :: uint8_t)) n \<longleftrightarrow>
     (if n < 2 then bit (integration_time s) n
      else if n = 3 then bit timing 3 \<or> gain s = TSL2561_GAIN_16X
      else if n = 4 then False
      else bit timing n)"
proof -
  consider "n = 0" | "n = 1" | "n = 2" | "n = 3" | "n = 4" | "n = 5" | "n = 6" | "n = 7"
    | "8 \<le> n"
    by arith
  then show ?thesis
  proof cases
    case 9
    then have "\<not> bit w n" for w :: uint8_t
      using bit_imp_le_length [of w n] by auto
    with 9 show ?thesis by simp
  qed (simp_all add: bit_and_iff bit_or_iff bit_not_iff bit_ucast_iff)
qed

text \<open>
  Claim C3, where the code departs from it. When the read of the timing register is not
  acknowledged, setup marks the sensor failed and writes nothing, as claimed. Otherwise it
  writes one byte whose two low bits are those of the integration-time code and whose bits
  2, 5, 6 and 7 are those of the byte read, as claimed. But the gain is ORed into bit 3
  (the literal \<^verbatim>\<open>0b0001000\<close>), not into bit 4, the bit that was cleared
  (\<^verbatim>\<open>0b00010000\<close>): bit 4 of the byte written is always clear, and bit 3 is set when it
  was set in the byte read or the gain is 16x.
\<close>

theorem setup_gain_bit:
  "TSL2561Sensor_setup s None =
     (s\<lparr>failed := True\<rparr>, [I2c_read_byte TSL2561_REGISTER_TIMING, Mark_failed])
   \<and> (\<exists>w. TSL2561Sensor_setup s (Some timing) =
          (s, [I2c_read_byte TSL2561_REGISTER_TIMING, I2c_write_byte TSL2561_REGISTER_TIMING w])
        \<and> (\<forall>n. bit w n \<longleftrightarrow>
              (if n < 2 then bit (integration_time s) n
               else if n = 3 then bit timing 3 \<or> gain s = TSL2561_GAIN_16X
               else if n = 4 then False
               else bit timing n)))"
  using timing_written_bits [of timing s]
  by (auto simp add: setup_no_ack setup_ack)

text \<open>
  The failing input of C3: the timing register reads 0x00 and the configured gain is 16x
  (integration time 402 ms, code 2). The byte written is 0x0A, with bit 3 set and bit 4
  clear, where the claim has 0x12.
\<close>

theorem setup_gain_bit_witness:
  "gain high_gain_sensor = TSL2561_GAIN_16X
   \<and> TSL2561Sensor_setup high_gain_sensor None =
     (high_gain_sensor\<lparr>failed := True\<rparr>, [I2c_read_byte TSL2561_REGISTER_TIMING, Mark_failed])
   \<and> TSL2561Sensor_setup high_gain_sensor (Some 0x00) =
     (high_gain_sensor,
      [I2c_read_byte TSL2561_REGISTER_TIMING, I2c_write_byte TSL2561_REGISTER_TIMING 0x0A])
   \<and> bit (0x0A :: uint8_t) 4 = False \<and> bit (0x0A :: uint8_t) 3 = True"
proof -
  have "TSL2561Sensor_setup high_gain_sensor (Some 0x00) =
     (high_gain_sensor,
      [I2c_read_byte TSL2561_REGISTER_TIMING, I2c_write_byte TSL2561_REGISTER_TIMING 0x0A])"
    by (simp add: TSL2561Sensor_setup_def high_gain_sensor_def)
  with setup_gain_bit [of high_gain_sensor 0] show ?thesis
    by (simp add: high_gain_sensor_def)
qed

subsection \<open>update\<close>

text \<open>
  Claim C9, as stated, fails at the 14 ms setting: the sum 13.7 + 20 is converted to
  \<^verbatim>\<open>uint32_t\<close>, so the delay handed to \<^verbatim>\<open>set_timeout\<close> is 33, which is neither the
  \<^verbatim>\<open>float\<close> sum nor 33.7.
\<close>

theorem update_delay_14ms_is_33:
  "integration_time fast_sensor = TSL2561_INTEGRATION_14MS datasheet_header
   \<and> get_integration_time_ms datasheet_header fast_sensor = float_literal 13.7
   \<and> TSL2561Sensor_update datasheet_header fast_sensor =
       Some [I2c_write_byte TSL2561_REGISTER_CONTROL 0x03, Set_timeout ''illuminance'' 33]
   \<and> Finite (of_int (uint (33 :: uint32_t)))
       \<noteq> float_add (float_literal 13.7) (float_literal 20.0)
   \<and> (of_int (uint (33 :: uint32_t)) :: rat) \<noteq> 13.7 + 20"
proof -
  have it: "integration_time fast_sensor = TSL2561_INTEGRATION_14MS datasheet_header"
    by (simp add: fast_sensor_def datasheet_header_def)
  then have ms: "get_integration_time_ms datasheet_header fast_sensor = float_literal 13.7"
    by (simp add: get_integration_time_ms_def)
  have "TSL2561Sensor_update datasheet_header fast_sensor =
       Some [I2c_write_byte TSL2561_REGISTER_CONTROL 0x03, Set_timeout ''illuminance'' 33]"
    by (simp only: TSL2561Sensor_update_def ms timeouts option.case)
  moreover have "Finite (of_int (uint (33 :: uint32_t)))
       \<noteq> float_add (float_literal 13.7) (float_literal 20.0)"
    by (simp only: guard_band_sums) simp
  moreover have "(of_int (uint (33 :: uint32_t)) :: rat) \<noteq> 13.7 + 20"
    by simp
  ultimately show ?thesis
    using it ms by simp
qed

text \<open>
  Claim C9, amended. For every configuration, update writes the power-on command (0x03 to
  the control register) and then schedules one callback under the key "illuminance". Its
  delay is the integration time in milliseconds plus 20, truncated to a whole number of
  milliseconds: 33 for the 14 ms code, 120 for the 101 ms code, 422 for the 402 ms code and
  20 for any other code. The integration time is the \<^verbatim>\<open>float\<close> nearest to 13.7, and
  exactly 100, 402 and 0; the sum before truncation is a \<^verbatim>\<open>float\<close> near 33.7, and exactly
  120, 422 and 20.
\<close>

theorem update_schedules_truncated_delay:
  "TSL2561Sensor_update h s =
     Some [I2c_write_byte TSL2561_REGISTER_CONTROL 0x03,
           Set_timeout ''illuminance''
             (if integration_time s = TSL2561_INTEGRATION_14MS h then 33
              else if integration_time s = TSL2561_INTEGRATION_101MS h then 120
              else if integration_time s = TSL2561_INTEGRATION_402MS h then 422
              else 20)]
   \<and> get_integration_time_ms h s =
       (if integration_time s = TSL2561_INTEGRATION_14MS h then Finite (14365491 / 2 ^ 20)
        else if integration_time s = TSL2561_INTEGRATION_101MS h then Finite 100
        else if integration_time s = TSL2561_INTEGRATION_402MS h then Finite 402
        else Finite 0)
   \<and> float_add (get_integration_time_ms h s) (float_literal 20.0) =
       (if integration_time s = TSL2561_INTEGRATION_14MS h then Finite (8834253 / 2 ^ 18)
        else if integration_time s = TSL2561_INTEGRATION_101MS h then Finite 120
        else if integration_time s = TSL2561_INTEGRATION_402MS h then Finite 422
        else Finite 20)"
proof (intro conjI)
  show "TSL2561Sensor_update h s =
     Some [I2c_write_byte TSL2561_REGISTER_CONTROL 0x03,
           Set_timeout ''illuminance''
             (if integration_time s = TSL2561_INTEGRATION_14MS h then 33
              else if integration_time s = TSL2561_INTEGRATION_101MS h then 120
              else if integration_time s = TSL2561_INTEGRATION_402MS h then 422
              else 20)]"
    using timeouts by (simp add: TSL2561Sensor_update_def get_integration_time_ms_def)
  show "get_integration_time_ms h s =
       (if integration_time s = TSL2561_INTEGRATION_14MS h then Finite (14365491 / 2 ^ 20)
        else if integration_time s = TSL2561_INTEGRATION_101MS h then Finite 100
        else if integration_time s = TSL2561_INTEGRATION_402MS h then Finite 402
        else Finite 0)"
    using integration_time_values float_literal_zero
    by (simp add: get_integration_time_ms_def)
  show "float_add (get_integration_time_ms h s) (float_literal 20.0) =
       (if integration_time s = TSL2561_INTEGRATION_14MS h then Finite (8834253 / 2 ^ 18)
        else if integration_time s = TSL2561_INTEGRATION_101MS h then Finite 120
        else if integration_time s = TSL2561_INTEGRATION_402MS h then Finite 422
        else Finite 20)"
    using guard_band_sums by (simp add: get_integration_time_ms_def)
qed

text \<open>The amended C9 at the three settings of the datasheet and at an unused code.\<close>

theorem update_schedules_truncated_delay_witness:
  "TSL2561Sensor_update datasheet_header fast_sensor =
     Some [I2c_write_byte TSL2561_REGISTER_CONTROL 0x03, Set_timeout ''illuminance'' 33]
   \<and> TSL2561Sensor_update datasheet_header scenario_a_sensor =
     Some [I2c_write_byte TSL2561_REGISTER_CONTROL 0x03, Set_timeout ''illuminance'' 120]
   \<and> TSL2561Sensor_update datasheet_header cs_sensor =
     Some [I2c_write_byte TSL2561_REGISTER_CONTROL 0x03, Set_timeout ''illuminance'' 422]
   \<and> TSL2561Sensor_update datasheet_header (cs_sensor\<lparr>integration_time := 3\<rparr>) =
     Some [I2c_write_byte TSL2561_REGISTER_CONTROL 0x03, Set_timeout ''illuminance'' 20]"
  using update_schedules_truncated_delay [of datasheet_header fast_sensor]
    update_schedules_truncated_delay [of datasheet_header scenario_a_sensor]
    update_schedules_truncated_delay [of datasheet_header cs_sensor]
    update_schedules_truncated_delay [of datasheet_header "cs_sensor\<lparr>integration_time := 3\<rparr>"]
  by (simp add: datasheet_header_def fast_sensor_def scenario_a_sensor_def cs_sensor_def)

subsection \<open>The lux calculation\<close>

lemma channel_ratio_zero:
  "channel_ratio 0 ch1 = (if ch1 = 0 then NaN else Infinity False)"
proof -
  have "((of_int (uint ch1) :: rat) = 0) = (ch1 = 0)"
    by (simp only: of_int_eq_0_iff uint_0_iff)
  moreover have "\<not> (of_int (uint ch1) :: rat) < 0"
    by (simp only: of_int_less_0_iff not_less uint_nonnegative)
  moreover have "channel_ratio 0 ch1 =
      float_div (Finite (of_int (uint ch1))) (Finite (of_int (uint (0 :: uint16_t))))"
    by (simp only: channel_ratio_def float_of_uint16_def)
  ultimately show ?thesis
    by (simp del: of_int_uint)
qed

lemma calculate_lx_unsaturated:
  assumes "ch0 \<noteq> 0xFFFF" "ch1 \<noteq> 0xFFFF"
  shows "calculate_lx powf h s ch0 ch1 =
     (let ratio = channel_ratio ch0 ch1;
          d0 = channel_scaled h s ch0; d1 = channel_scaled h s ch1
      in if package_cs s
         then
           (if float_less ratio (float_literal 0.52)
            then float_sub (float_mul (float_literal 0.0315) d0)
                   (float_mul (float_mul (float_literal 0.0593) d0)
                      (powf ratio (float_literal 1.4)))
            else if float_less ratio (float_literal 0.65)
            then float_sub (float_mul (float_literal 0.0229) d0)
                   (float_mul (float_literal 0.0291) d1)
            else if float_less ratio (float_literal 0.80)
            then float_sub (float_mul (float_literal 0.0157) d0)
                   (float_mul (float_literal 0.0153) d1)
            else if float_less ratio (float_literal 1.30)
            then float_sub (float_mul (float_literal 0.00338) d0)
                   (float_mul (float_literal 0.00260) d1)
            else float_literal 0.0)
         else
           (if float_less ratio (float_literal 0.5)
            then float_sub (float_mul (float_literal 0.0304) d0)
                   (float_mul (float_mul (float_literal 0.062) d0)
                      (powf ratio (float_literal 1.4)))
            else if float_less ratio (float_literal 0.61)
            then float_sub (float_mul (float_literal 0.0224) d0)
                   (float_mul (float_literal 0.031) d1)
            else if float_less ratio (float_literal 0.80)
            then float_sub (float_mul (float_literal 0.0128) d0)
                   (float_mul (float_literal 0.0153) d1)
            else if float_less ratio (float_literal 1.30)
            then float_sub (float_mul (float_literal 0.00146) d0)
                   (float_mul (float_literal 0.00112) d1)
            else float_literal 0.0))"
  using assms
  by (simp only: calculate_lx_def channel_ratio_def channel_scaled_def Let_def if_False
      simp_thms)

text \<open>
  Claim C5. When either raw channel is 0xFFFF the lux calculation returns not-a-number,
  which is not the value 0.0, whatever the other channel, the gain, the integration time
  and the package are.
\<close>

theorem saturated_channel_is_nan:
  "ch0 = 0xFFFF \<or> ch1 = 0xFFFF \<Longrightarrow>
   calculate_lx powf h s ch0 ch1 = NaN \<and> calculate_lx powf h s ch0 ch1 \<noteq> float_literal 0.0"
  by (simp add: calculate_lx_def float_literal_zero)

text \<open>The hypothesis of C5 with channel 0 saturated, and with channel 1 saturated.\<close>

theorem saturated_channel_is_nan_witness:
  "(0xFFFF :: uint16_t) = 0xFFFF
   \<and> calculate_lx (\<lambda>x y. x) datasheet_header scenario_a_sensor 0xFFFF 0 = NaN
   \<and> calculate_lx (\<lambda>x y. x) datasheet_header cs_sensor 1000 0xFFFF = NaN"
  using saturated_channel_is_nan [of "0xFFFF" "0" "\<lambda>x y. x" datasheet_header scenario_a_sensor]
    saturated_channel_is_nan [of "1000" "0xFFFF" "\<lambda>x y. x" datasheet_header cs_sensor]
  by simp

text \<open>
  Claim C10. With channel 0 equal to 0 and channel 1 not saturated, the lux calculation
  returns 0.0 for every configuration: the ratio is positive infinity, or not-a-number when
  channel 1 is 0 as well, no comparison \<^verbatim>\<open>ratio < t\<close> holds, and the result is the final
  \<^verbatim>\<open>0.0f\<close>. The division by zero yields a value; nothing is left undefined.
\<close>

theorem zero_channel0_gives_zero:
  "ch1 \<noteq> 0xFFFF \<Longrightarrow>
   calculate_lx powf h s 0 ch1 = float_literal 0.0
   \<and> float_literal 0.0 = Finite 0
   \<and> channel_ratio 0 ch1 = (if ch1 = 0 then NaN else Infinity False)
   \<and> (\<forall>t. \<not> float_less (channel_ratio 0 ch1) t)"
proof -
  assume "ch1 \<noteq> 0xFFFF"
  moreover have never: "\<not> float_less (channel_ratio 0 ch1) t" for t
    by (simp add: channel_ratio_zero)
  ultimately have "calculate_lx powf h s 0 ch1 = float_literal 0.0"
    using never by (simp add: calculate_lx_def channel_ratio_def Let_def)
  with never show ?thesis
    by (simp add: channel_ratio_zero float_literal_zero)
qed

text \<open>The hypothesis of C10 at channel 1 equal to 300, and at both channels 0.\<close>

theorem zero_channel0_gives_zero_witness:
  "(300 :: uint16_t) \<noteq> 0xFFFF \<and> (0 :: uint16_t) \<noteq> 0xFFFF
   \<and> calculate_lx (\<lambda>x y. x) datasheet_header scenario_a_sensor 0 300 = Finite 0
   \<and> channel_ratio 0 300 = Infinity False
   \<and> calculate_lx (\<lambda>x y. x) datasheet_header cs_sensor 0 0 = Finite 0
   \<and> channel_ratio 0 0 = NaN"
  using zero_channel0_gives_zero [of 300 "\<lambda>x y. x" datasheet_header scenario_a_sensor]
    zero_channel0_gives_zero [of 0 "\<lambda>x y. x" datasheet_header cs_sensor]
  by simp

text \<open>
  Claim C4. With neither channel saturated, the lux calculation is the table below for
  every ratio and both packages: the branch taken is the first one whose threshold the
  ratio is strictly below (0.52, 0.65, 0.80, 1.30 for the CS package, 0.5, 0.61, 0.80, 1.30
  for the standard one), with the coefficients of that row, and 0.0 when there is none. So
  a ratio equal to a threshold takes the branch after it, at every threshold: for the CS
  package a ratio not below 0.52 but below 0.65, in particular a ratio equal to 0.52, gives
  0.0229 d0 - 0.0291 d1. A ratio at or above 1.30 gives 0.0 for both packages. For the
  standard package a ratio below 0.5 gives 0.0304 d0 - 0.062 d0 powf(ratio, 1.4). Here d0
  and d1 are the scaled channels and every number is the \<^verbatim>\<open>float\<close> nearest to the decimal
  written. In the scenario (high gain, 101 ms, standard package, channels 1000 and 300) d0
  is 4020, the ratio is the \<^verbatim>\<open>float\<close> 0.3, and the result is that formula at these values.
\<close>

theorem lux_branch_selection:
  assumes "ch0 \<noteq> 0xFFFF" and "ch1 \<noteq> 0xFFFF"
  shows "calculate_lx powf h s ch0 ch1 =
     (let ratio = channel_ratio ch0 ch1;
          d0 = channel_scaled h s ch0; d1 = channel_scaled h s ch1
      in if package_cs s
         then
           (if float_less ratio (float_literal 0.52)
            then float_sub (float_mul (float_literal 0.0315) d0)
                   (float_mul (float_mul (float_literal 0.0593) d0)
                      (powf ratio (float_literal 1.4)))
            else if float_less ratio (float_literal 0.65)
            then float_sub (float_mul (float_literal 0.0229) d0)
                   (float_mul (float_literal 0.0291) d1)
            else if float_less ratio (float_literal 0.80)
            then float_sub (float_mul (float_literal 0.0157) d0)
                   (float_mul (float_literal 0.0153) d1)
            else if float_less ratio (float_literal 1.30)
            then float_sub (float_mul (float_literal 0.00338) d0)
                   (float_mul (float_literal 0.00260) d1)
            else float_literal 0.0)
         else
           (if float_less ratio (float_literal 0.5)
            then float_sub (float_mul (float_literal 0.0304) d0)
                   (float_mul (float_mul (float_literal 0.062) d0)
                      (powf ratio (float_literal 1.4)))
            else if float_less ratio (float_literal 0.61)
            then float_sub (float_mul (float_literal 0.0224) d0)
                   (float_mul (float_literal 0.031) d1)
            else if float_less ratio (float_literal 0.80)
            then float_sub (float_mul (float_literal 0.0128) d0)
                   (float_mul (float_literal 0.0153) d1)
            else if float_less ratio (float_literal 1.30)
            then float_sub (float_mul (float_literal 0.00146) d0)
                   (float_mul (float_literal 0.00112) d1)
            else float_literal 0.0))
     \<and> (package_cs s \<and> channel_ratio ch0 ch1 = float_literal 0.65 \<longrightarrow>
          calculate_lx powf h s ch0 ch1 =
            float_sub (float_mul (float_literal 0.0157) (channel_scaled h s ch0))
              (float_mul (float_literal 0.0153) (channel_scaled h s ch1)))
     \<and> (package_cs s \<and> channel_ratio ch0 ch1 = float_literal 0.80 \<longrightarrow>
          calculate_lx powf h s ch0 ch1 =
            float_sub (float_mul (float_literal 0.00338) (channel_scaled h s ch0))
              (float_mul (float_literal 0.00260) (channel_scaled h s ch1)))
     \<and> (\<not> package_cs s \<and> channel_ratio ch0 ch1 = float_literal 0.5 \<longrightarrow>
          calculate_lx powf h s ch0 ch1 =
            float_sub (float_mul (float_literal 0.0224) (channel_scaled h s ch0))
              (float_mul (float_literal 0.031) (channel_scaled h s ch1)))
     \<and> (\<not> package_cs s \<and> channel_ratio ch0 ch1 = float_literal 0.61 \<longrightarrow>
          calculate_lx powf h s ch0 ch1 =
            float_sub (float_mul (float_literal 0.0128) (channel_scaled h s ch0))
              (float_mul (float_literal 0.0153) (channel_scaled h s ch1)))
     \<and> (\<not> package_cs s \<and> channel_ratio ch0 ch1 = float_literal 0.80 \<longrightarrow>
          calculate_lx powf h s ch0 ch1 =
            float_sub (float_mul (float_literal 0.00146) (channel_scaled h s ch0))
              (float_mul (float_literal 0.00112) (channel_scaled h s ch1)))
     \<and> (package_cs s \<and> \<not> float_less (channel_ratio ch0 ch1) (float_literal 0.52)
            \<and> float_less (channel_ratio ch0 ch1) (float_literal 0.65) \<longrightarrow>
          calculate_lx powf h s ch0 ch1 =
            float_sub (float_mul (float_literal 0.0229) (channel_scaled h s ch0))
              (float_mul (float_literal 0.0291) (channel_scaled h s ch1)))
     \<and> (package_cs s \<and> channel_ratio ch0 ch1 = float_literal 0.52 \<longrightarrow>
          calculate_lx powf h s ch0 ch1 =
            float_sub (float_mul (float_literal 0.0229) (channel_scaled h s ch0))
              (float_mul (float_literal 0.0291) (channel_scaled h s ch1)))
     \<and> (float_less_eq (float_literal 1.30) (channel_ratio ch0 ch1) \<longrightarrow>
          calculate_lx powf h s ch0 ch1 = float_literal 0.0)
     \<and> (\<not> package_cs s \<and> float_less (channel_ratio ch0 ch1) (float_literal 0.5) \<longrightarrow>
          calculate_lx powf h s ch0 ch1 =
            float_sub (float_mul (float_literal 0.0304) (channel_scaled h s ch0))
              (float_mul (float_mul (float_literal 0.062) (channel_scaled h s ch0))
                 (powf (channel_ratio ch0 ch1) (float_literal 1.4))))
     \<and> (TSL2561_INTEGRATION_101MS h \<noteq> TSL2561_INTEGRATION_14MS h
          \<and> integration_time s = TSL2561_INTEGRATION_101MS h
          \<and> gain s = TSL2561_GAIN_16X \<and> \<not> package_cs s \<longrightarrow>
          channel_scaled h s 1000 = Finite 4020
          \<and> channel_ratio 1000 300 = float_literal 0.3
          \<and> calculate_lx powf h s 1000 300 =
               float_sub (float_mul (float_literal 0.0304) (Finite 4020))
                 (float_mul (float_mul (float_literal 0.062) (Finite 4020))
                    (powf (float_literal 0.3) (float_literal 1.4))))"
    (is "?table \<and> _")
proof (intro conjI impI)
  note table = calculate_lx_unsaturated [OF assms, of powf h s]
  show ?table
    by (rule table)
  show "calculate_lx powf h s ch0 ch1 =
            float_sub (float_mul (float_literal 0.0157) (channel_scaled h s ch0))
              (float_mul (float_literal 0.0153) (channel_scaled h s ch1))"
    if "package_cs s \<and> channel_ratio ch0 ch1 = float_literal 0.65"
    using that thresholds_strict by (simp add: table Let_def)
  show "calculate_lx powf h s ch0 ch1 =
            float_sub (float_mul (float_literal 0.00338) (channel_scaled h s ch0))
              (float_mul (float_literal 0.00260) (channel_scaled h s ch1))"
    if "package_cs s \<and> channel_ratio ch0 ch1 = float_literal 0.80"
    using that thresholds_strict by (simp add: table Let_def)
  show "calculate_lx powf h s ch0 ch1 =
            float_sub (float_mul (float_literal 0.0224) (channel_scaled h s ch0))
              (float_mul (float_literal 0.031) (channel_scaled h s ch1))"
    if "\<not> package_cs s \<and> channel_ratio ch0 ch1 = float_literal 0.5"
    using that thresholds_strict by (simp add: table Let_def)
  show "calculate_lx powf h s ch0 ch1 =
            float_sub (float_mul (float_literal 0.0128) (channel_scaled h s ch0))
              (float_mul (float_literal 0.0153) (channel_scaled h s ch1))"
    if "\<not> package_cs s \<and> channel_ratio ch0 ch1 = float_literal 0.61"
    using that thresholds_strict by (simp add: table Let_def)
  show "calculate_lx powf h s ch0 ch1 =
            float_sub (float_mul (float_literal 0.00146) (channel_scaled h s ch0))
              (float_mul (float_literal 0.00112) (channel_scaled h s ch1))"
    if "\<not> package_cs s \<and> channel_ratio ch0 ch1 = float_literal 0.80"
    using that thresholds_strict by (simp add: table Let_def)
  show "calculate_lx powf h s ch0 ch1 =
            float_sub (float_mul (float_literal 0.0229) (channel_scaled h s ch0))
              (float_mul (float_literal 0.0291) (channel_scaled h s ch1))"
    if "package_cs s \<and> \<not> float_less (channel_ratio ch0 ch1) (float_literal 0.52)
            \<and> float_less (channel_ratio ch0 ch1) (float_literal 0.65)"
    using that by (simp add: table Let_def)
  show "calculate_lx powf h s ch0 ch1 =
            float_sub (float_mul (float_literal 0.0229) (channel_scaled h s ch0))
              (float_mul (float_literal 0.0291) (channel_scaled h s ch1))"
    if "package_cs s \<and> channel_ratio ch0 ch1 = float_literal 0.52"
    using that thresholds_ordered(1) by (simp add: table Let_def)
  show "calculate_lx powf h s ch0 ch1 = float_literal 0.0"
    if top: "float_less_eq (float_literal 1.30) (channel_ratio ch0 ch1)"
  proof -
    have "\<not> float_less (channel_ratio ch0 ch1) t"
      if "float_less_eq t (float_literal 1.30)" for t
      using float_less_eq_not_less [OF top that] .
    with thresholds_ordered show ?thesis
      by (simp add: table Let_def)
  qed
  show "calculate_lx powf h s ch0 ch1 =
            float_sub (float_mul (float_literal 0.0304) (channel_scaled h s ch0))
              (float_mul (float_mul (float_literal 0.062) (channel_scaled h s ch0))
                 (powf (channel_ratio ch0 ch1) (float_literal 1.4)))"
    if "\<not> package_cs s \<and> float_less (channel_ratio ch0 ch1) (float_literal 0.5)"
    using that by (simp add: table Let_def)
next
  assume a: "TSL2561_INTEGRATION_101MS h \<noteq> TSL2561_INTEGRATION_14MS h
          \<and> integration_time s = TSL2561_INTEGRATION_101MS h
          \<and> gain s = TSL2561_GAIN_16X \<and> \<not> package_cs s"
  then have ms: "get_integration_time_ms h s = float_literal 100.0"
    by (simp add: get_integration_time_ms_def)
  from a show d0: "channel_scaled h s 1000 = Finite 4020"
    by (simp only: channel_scaled_def ms Let_def scenario_a_values) simp
  show r: "channel_ratio 1000 300 = float_literal 0.3"
    by (simp only: channel_ratio_def scenario_a_values)
  have "(1000 :: uint16_t) \<noteq> 0xFFFF" "(300 :: uint16_t) \<noteq> 0xFFFF"
    by simp_all
  from calculate_lx_unsaturated [OF this, of powf h s] a
  show "calculate_lx powf h s 1000 300 =
               float_sub (float_mul (float_literal 0.0304) (Finite 4020))
                 (float_mul (float_mul (float_literal 0.062) (Finite 4020))
                    (powf (float_literal 0.3) (float_literal 1.4)))"
    by (simp only: d0 r Let_def scenario_a_values if_True if_False simp_thms)
qed

text \<open>
  The hypotheses of C4 at the CS package with channels 25 and 13, whose ratio is the
  \<^verbatim>\<open>float\<close> 0.52 exactly, at the standard package with channels 2 and 1, whose ratio is
  exactly 0.5, with channels 1000 and 700 (third row), and at the scenario.
\<close>

theorem lux_branch_selection_witness:
  "(25 :: uint16_t) \<noteq> 0xFFFF \<and> (13 :: uint16_t) \<noteq> 0xFFFF
   \<and> package_cs cs_sensor \<and> channel_ratio 25 13 = float_literal 0.52
   \<and> calculate_lx (\<lambda>x y. x) datasheet_header cs_sensor 25 13 =
        float_sub (float_mul (float_literal 0.0229) (channel_scaled datasheet_header cs_sensor 25))
          (float_mul (float_literal 0.0291) (channel_scaled datasheet_header cs_sensor 13))
   \<and> (2 :: uint16_t) \<noteq> 0xFFFF \<and> (1 :: uint16_t) \<noteq> 0xFFFF
   \<and> channel_ratio 2 1 = float_literal 0.5
   \<and> calculate_lx (\<lambda>x y. x) datasheet_header scenario_a_sensor 2 1 =
        float_sub
          (float_mul (float_literal 0.0224) (channel_scaled datasheet_header scenario_a_sensor 2))
          (float_mul (float_literal 0.031) (channel_scaled datasheet_header scenario_a_sensor 1))
   \<and> (1000 :: uint16_t) \<noteq> 0xFFFF \<and> (700 :: uint16_t) \<noteq> 0xFFFF
   \<and> channel_ratio 1000 700 = float_literal 0.7
   \<and> calculate_lx (\<lambda>x y. x) datasheet_header scenario_a_sensor 1000 700 =
        float_sub
          (float_mul (float_literal 0.0128)
             (channel_scaled datasheet_header scenario_a_sensor 1000))
          (float_mul (float_literal 0.0153)
             (channel_scaled datasheet_header scenario_a_sensor 700))
   \<and> TSL2561_INTEGRATION_101MS datasheet_header \<noteq> TSL2561_INTEGRATION_14MS datasheet_header
   \<and> integration_time scenario_a_sensor = TSL2561_INTEGRATION_101MS datasheet_header
   \<and> gain scenario_a_sensor = TSL2561_GAIN_16X \<and> \<not> package_cs scenario_a_sensor
   \<and> channel_scaled datasheet_header scenario_a_sensor 1000 = Finite 4020
   \<and> calculate_lx (\<lambda>x y. x) datasheet_header scenario_a_sensor 1000 300 =
         float_sub (float_mul (float_literal 0.0304) (Finite 4020))
           (float_mul (float_mul (float_literal 0.062) (Finite 4020)) (float_literal 0.3))"
proof -
  have ch: "(25 :: uint16_t) \<noteq> 0xFFFF" "(13 :: uint16_t) \<noteq> 0xFFFF"
    by simp_all
  have ch': "(2 :: uint16_t) \<noteq> 0xFFFF" "(1 :: uint16_t) \<noteq> 0xFFFF"
    by simp_all
  have ch'': "(1000 :: uint16_t) \<noteq> 0xFFFF" "(700 :: uint16_t) \<noteq> 0xFFFF"
    by simp_all
  have cs: "package_cs cs_sensor" "channel_ratio 25 13 = float_literal 0.52"
    by (simp_all only: channel_ratio_def scenario_a_values) (simp add: cs_sensor_def)
  have half: "channel_ratio 2 1 = float_literal 0.5"
    by (simp only: channel_ratio_def boundary_ratios)
  have r7: "channel_ratio 1000 700 = float_literal 0.7"
    by (simp only: channel_ratio_def boundary_ratios)
  have a: "TSL2561_INTEGRATION_101MS datasheet_header \<noteq> TSL2561_INTEGRATION_14MS datasheet_header"
    "integration_time scenario_a_sensor = TSL2561_INTEGRATION_101MS datasheet_header"
    "gain scenario_a_sensor = TSL2561_GAIN_16X" "\<not> package_cs scenario_a_sensor"
    by (simp_all add: datasheet_header_def scenario_a_sensor_def)
  note cs_rows = lux_branch_selection [OF ch, of "\<lambda>x y. x" datasheet_header cs_sensor]
  note half_rows = lux_branch_selection [OF ch', of "\<lambda>x y. x" datasheet_header scenario_a_sensor]
  note r7_rows = lux_branch_selection [OF ch'', of "\<lambda>x y. x" datasheet_header scenario_a_sensor]
  have row_cs: "calculate_lx (\<lambda>x y. x) datasheet_header cs_sensor 25 13 =
        float_sub (float_mul (float_literal 0.0229) (channel_scaled datasheet_header cs_sensor 25))
          (float_mul (float_literal 0.0291) (channel_scaled datasheet_header cs_sensor 13))"
    using cs_rows [THEN conjunct2, THEN conjunct2, THEN conjunct2, THEN conjunct2, THEN conjunct2, THEN conjunct2, THEN conjunct2, THEN conjunct1] cs by (simp only: simp_thms)
  have row_half: "calculate_lx (\<lambda>x y. x) datasheet_header scenario_a_sensor 2 1 =
        float_sub
          (float_mul (float_literal 0.0224) (channel_scaled datasheet_header scenario_a_sensor 2))
          (float_mul (float_literal 0.031) (channel_scaled datasheet_header scenario_a_sensor 1))"
    using half_rows [THEN conjunct2, THEN conjunct2, THEN conjunct2, THEN conjunct1] half a(4) by (simp only: simp_thms)
  have row3: "calculate_lx (\<lambda>x y. x) datasheet_header scenario_a_sensor 1000 700 =
        float_sub
          (float_mul (float_literal 0.0128)
             (channel_scaled datasheet_header scenario_a_sensor 1000))
          (float_mul (float_literal 0.0153)
             (channel_scaled datasheet_header scenario_a_sensor 700))"
    using r7_rows [THEN conjunct1] a(4)
    by (simp only: r7 Let_def boundary_ratios if_True if_False simp_thms)
  have scen: "channel_scaled datasheet_header scenario_a_sensor 1000 = Finite 4020
     \<and> channel_ratio 1000 300 = float_literal 0.3
     \<and> calculate_lx (\<lambda>x y. x) datasheet_header scenario_a_sensor 1000 300 =
         float_sub (float_mul (float_literal 0.0304) (Finite 4020))
           (float_mul (float_mul (float_literal 0.062) (Finite 4020)) (float_literal 0.3))"
    using half_rows [THEN conjunct2, THEN conjunct2, THEN conjunct2, THEN conjunct2, THEN conjunct2, THEN conjunct2, THEN conjunct2, THEN conjunct2, THEN conjunct2, THEN conjunct2] a by (simp only: simp_thms)
  from ch ch' ch'' cs half r7 a row_cs row_half row3 scen show ?thesis
    by (simp only: simp_thms)
qed

section \<open>Properties of the MH-Z19 component\<close>

subsection \<open>The checksum\<close>

lemma mhz19_checksum_loop_sum:
  "i \<le> MHZ19_REQUEST_LENGTH \<Longrightarrow>
   mhz19_checksum_loop command i acc = acc + (\<Sum>j = i..<MHZ19_REQUEST_LENGTH. command ! j)"
proof (induction command i acc rule: mhz19_checksum_loop.induct)
  case (1 command i acc)
  show ?case
  proof (cases "i < MHZ19_REQUEST_LENGTH")
    case True
    then have "mhz19_checksum_loop command i acc =
               mhz19_checksum_loop command (i + 1) (acc + command ! i)"
      by (subst mhz19_checksum_loop.simps) simp
    also have "\<dots> = acc + command ! i + (\<Sum>j = i + 1..<MHZ19_REQUEST_LENGTH. command ! j)"
      using True by (intro "1.IH") simp_all
    also have "\<dots> = acc + (\<Sum>j = i..<MHZ19_REQUEST_LENGTH. command ! j)"
      using True by (simp add: sum.atLeast_Suc_lessThan add.assoc)
    finally show ?thesis .
  next
    case False
    with "1.prems" have "i = MHZ19_REQUEST_LENGTH" by simp
    then show ?thesis by (subst mhz19_checksum_loop.simps) simp
  qed
qed

lemma mhz19_checksum_sum:
  "mhz19_checksum command = 0xFF - (\<Sum>j = 1..<8. command ! j) + 1"
  using mhz19_checksum_loop_sum [of 1 command 0]
  by (simp add: mhz19_checksum_def MHZ19_REQUEST_LENGTH_def)




lemma mhz19_write_command_read:
  "mhz19_write_command command True rx =
     ([Flush, Write_array (take 8 command), Write_byte (mhz19_checksum command),
       Read_array 9, Flush],
      9 \<le> length rx, if 9 \<le> length rx then take 9 rx else [])"
  by (simp add: mhz19_write_command_def read_array_def MHZ19_REQUEST_LENGTH_def
      MHZ19_RESPONSE_LENGTH_def)

lemma status_u_unat:
  "(push_bit 8 (ucast (a :: 8 word)) + ucast (b :: 8 word) = (15000 :: 16 word))
     \<longleftrightarrow> unat a * 256 + unat b = 15000"
proof -
  have a: "unat a < 256" using unsigned_less [of a, where ?'a = nat] by simp
  have b: "unat b < 256" using unsigned_less [of b, where ?'a = nat] by simp
  have "unat (push_bit 8 (ucast a :: 16 word) + ucast b) = unat a * 256 + unat b"
    using a b
    by (simp add: unat_word_ariths unsigned_push_bit_eq unsigned_ucast_eq take_bit_eq_mod
        push_bit_eq_mult)
  then show ?thesis
    by (simp add: word_unat_eq_iff)
qed

lemma scenario_b_checksum: "mhz19_checksum [0xFF, 0x86, 0x01, 0x90, 0x28, 0x00, 0x00, 0x00] = 0xC1"
  by (simp add: mhz19_checksum_def mhz19_checksum_loop.simps MHZ19_REQUEST_LENGTH_def)

lemma mhz19_checksum_take:
  "9 \<le> length rx \<Longrightarrow> mhz19_checksum (take 9 rx) = mhz19_checksum rx"
  by (simp add: mhz19_checksum_sum)

lemma published_append [simp]: "published (xs @ ys) = published xs @ published ys"
  by (simp add: published_def)

lemma published_simps [simp]:
  "published [] = []"
  "published (Flush # ev) = published ev"
  "published (Write_array bs # ev) = published ev"
  "published (Write_byte b # ev) = published ev"
  "published (Read_array n # ev) = published ev"
  "published (Status_set_warning # ev) = published ev"
  "published (Status_clear_warning # ev) = published ev"
  "published (Publish_co2 v # ev) = Publish_co2 v # published ev"
  "published (Publish_temperature t # ev) = Publish_temperature t # published ev"
  by (simp_all add: published_def)



subsection \<open>The boot guard\<close>

lemma update_booting:
  assumes "9 \<le> length rx" "rx ! 0 = 0xFF" "rx ! 1 = 0x86"
    "unat (rx ! 6) * 256 + unat (rx ! 7) = 15000"
  shows "MHZ19Component_update s rx rx_ack =
     (s, [Flush, Write_array (take 8 MHZ19_COMMAND_GET_PPM),
          Write_byte (mhz19_checksum MHZ19_COMMAND_GET_PPM), Read_array 9, Flush])"
  using assms
  by (simp add: MHZ19Component_update_def mhz19_write_command_read status_u_unat)

text \<open>
  Claim C7. Over any number of successive update cycles in each of which nine bytes arrive,
  the preamble is 0xFF 0x86 and bytes 6 and 7 read 15000 as a big-endian 16-bit number,
  the component publishes no measurement and never calls \<^verbatim>\<open>status_set_warning\<close>; its state,
  the warning flag included, stays what it was.
\<close>

theorem boot_guard_publishes_nothing:
  "\<forall>(rx, rx_ack) \<in> set cycles.
      9 \<le> length rx \<and> rx ! 0 = 0xFF \<and> rx ! 1 = 0x86
      \<and> unat (rx ! 6) * 256 + unat (rx ! 7) = 15000
   \<Longrightarrow> fst (MHZ19Component_updates s cycles) = s
       \<and> published (snd (MHZ19Component_updates s cycles)) = []
       \<and> Status_set_warning \<notin> set (snd (MHZ19Component_updates s cycles))"
proof (induction cycles)
  case Nil
  then show ?case by simp
next
  case (Cons c cycles)
  obtain rx rx_ack where c: "c = (rx, rx_ack)" by (cases c)
  from Cons.prems c have boot: "9 \<le> length rx" "rx ! 0 = 0xFF" "rx ! 1 = 0x86"
    "unat (rx ! 6) * 256 + unat (rx ! 7) = 15000"
    by simp_all
  from Cons.prems have rest: "\<forall>(rx, rx_ack) \<in> set cycles.
      9 \<le> length rx \<and> rx ! 0 = 0xFF \<and> rx ! 1 = 0x86
      \<and> unat (rx ! 6) * 256 + unat (rx ! 7) = 15000"
    by simp
  from Cons.IH [OF rest] show ?case
    by (auto simp add: c update_booting [OF boot] split: prod.split)
qed

text \<open>The hypothesis of C7 at two booting cycles in a row, starting with the warning set.\<close>

theorem boot_guard_publishes_nothing_witness:
  "9 \<le> length booting_response
   \<and> booting_response ! 0 = 0xFF \<and> booting_response ! 1 = 0x86
   \<and> unat (booting_response ! 6) * 256 + unat (booting_response ! 7) = 15000
   \<and> fst (MHZ19Component_updates (mhz19_initial\<lparr>warning := True\<rparr>)
            [(booting_response, []), (booting_response, [])])
        = mhz19_initial\<lparr>warning := True\<rparr>
   \<and> published (snd (MHZ19Component_updates (mhz19_initial\<lparr>warning := True\<rparr>)
            [(booting_response, []), (booting_response, [])])) = []
   \<and> Status_set_warning \<notin> set (snd (MHZ19Component_updates
            (mhz19_initial\<lparr>warning := True\<rparr>)
            [(booting_response, []), (booting_response, [])]))"
proof -
  have b: "9 \<le> length booting_response
     \<and> booting_response ! 0 = 0xFF \<and> booting_response ! 1 = 0x86
     \<and> unat (booting_response ! 6) * 256 + unat (booting_response ! 7) = 15000"
    by (simp add: booting_response_def)
  then have h: "\<forall>(rx, rx_ack) \<in> set [(booting_response, []), (booting_response, [])].
      9 \<le> length rx \<and> rx ! 0 = 0xFF \<and> rx ! 1 = 0x86
      \<and> unat (rx ! 6) * 256 + unat (rx ! 7) = 15000"
    by simp
  from boot_guard_publishes_nothing [OF h] b show ?thesis
    by blast
qed

subsection \<open>A valid response\<close>

lemma update_validate_model_b:
  "model_b (fst (update_validate s ev response)) = model_b s"
  "abc_disabled (fst (update_validate s ev response)) = abc_disabled s"
  "temperature_sensor (fst (update_validate s ev response)) = temperature_sensor s"
  by (simp_all add: update_validate_def Let_def)

lemma update_model_b_sticky:
  "model_b s \<Longrightarrow> model_b (fst (MHZ19Component_update s rx rx_ack))"
  by (simp add: MHZ19Component_update_def mhz19_write_command_read Let_def
      update_validate_model_b split: prod.split)

lemma updates_model_b_sticky:
  "model_b s \<Longrightarrow> model_b (fst (MHZ19Component_updates s cycles))"
proof (induction cycles arbitrary: s)
  case Nil
  then show ?case by simp
next
  case (Cons c cycles)
  obtain rx rx_ack where c: "c = (rx, rx_ack)" by (cases c)
  obtain s' ev where u: "MHZ19Component_update s rx rx_ack = (s', ev)"
    by (cases "MHZ19Component_update s rx rx_ack")
  with update_model_b_sticky [OF Cons.prems, of rx rx_ack] have "model_b s'" by simp
  from Cons.IH [OF this] show ?case
    by (auto simp add: c u split: prod.split)
qed

lemma scenario_b_update:
  assumes "abc_disabled s = False \<longrightarrow> 9 \<le> length rx_ack"
  shows "MHZ19Component_update s scenario_b_response rx_ack =
     (s\<lparr>warning := False, model_b := True, abc_disabled := True\<rparr>,
      [Flush, Write_array (take 8 MHZ19_COMMAND_GET_PPM),
       Write_byte (mhz19_checksum MHZ19_COMMAND_GET_PPM), Read_array 9, Flush]
      @ (if abc_disabled s then []
         else [Flush, Write_array (take 8 MHZ19_COMMAND_ABC_DISABLE),
               Write_byte (mhz19_checksum MHZ19_COMMAND_ABC_DISABLE), Read_array 9, Flush])
      @ [Status_clear_warning, Publish_co2 400]
      @ (if temperature_sensor s then [Publish_temperature 0] else []))"
proof -
  have cs: "mhz19_checksum [0xFF, 0x86, 0x01, 0x90, 0x28, 0x00, 0x00, 0x00, 0xC1] = 0xC1"
    by (simp add: mhz19_checksum_def mhz19_checksum_loop.simps MHZ19_REQUEST_LENGTH_def)
  have ppm: "push_bit 8 (0x01 :: 16 word) OR 0x90 = 400"
    by simp
  show ?thesis
    using assms
    by (cases "model_b s"; cases "abc_disabled s")
       (simp_all add: scenario_b_response_def scenario_b_checksum MHZ19Component_update_def
        mhz19_write_command_read update_validate_def cs ppm)
qed

text \<open>
  Claim C8. On the response 0xFF 0x86 0x01 0x90 0x28 0x00 0x00 0x00 with its correct
  checksum, and provided the acknowledgement of the disable-ABC command arrives whenever
  that command is sent (which is when \<open>abc_disabled\<close> is not yet set), the update publishes
  400 ppm, publishes the temperature 0 exactly when a temperature sensor is configured,
  clears the warning and never sets it, and sets \<open>model_b\<close>, which stays set over all later
  cycles whatever arrives in them.
\<close>

theorem scenario_b_publishes:
  assumes "abc_disabled s = False \<longrightarrow> 9 \<le> length rx_ack"
  shows "published (snd (MHZ19Component_update s scenario_b_response rx_ack))
           = Publish_co2 400 # (if temperature_sensor s then [Publish_temperature 0] else [])
       \<and> Status_clear_warning \<in> set (snd (MHZ19Component_update s scenario_b_response rx_ack))
       \<and> Status_set_warning \<notin> set (snd (MHZ19Component_update s scenario_b_response rx_ack))
       \<and> warning (fst (MHZ19Component_update s scenario_b_response rx_ack)) = False
       \<and> model_b (fst (MHZ19Component_update s scenario_b_response rx_ack))
       \<and> (\<forall>cycles. model_b (fst (MHZ19Component_updates
                (fst (MHZ19Component_update s scenario_b_response rx_ack)) cycles)))"
proof -
  have "model_b (fst (MHZ19Component_update s scenario_b_response rx_ack))"
    by (simp add: scenario_b_update [OF assms])
  then have "\<forall>cycles. model_b (fst (MHZ19Component_updates
                (fst (MHZ19Component_update s scenario_b_response rx_ack)) cycles))"
    by (simp add: updates_model_b_sticky)
  then show ?thesis
    by (simp add: scenario_b_update [OF assms])
qed

text \<open>
  The hypothesis of C8 at a fresh component whose disable-ABC command is acknowledged,
  without and with a temperature sensor.
\<close>

theorem scenario_b_publishes_witness:
  "9 \<le> length abc_ack_response
   \<and> scenario_b_response = [0xFF, 0x86, 0x01, 0x90, 0x28, 0x00, 0x00, 0x00, 0xC1]
   \<and> published (snd (MHZ19Component_update mhz19_initial scenario_b_response abc_ack_response))
       = [Publish_co2 400]
   \<and> published (snd (MHZ19Component_update (mhz19_initial\<lparr>temperature_sensor := True\<rparr>)
         scenario_b_response abc_ack_response))
       = [Publish_co2 400, Publish_temperature 0]
   \<and> model_b (fst (MHZ19Component_update mhz19_initial scenario_b_response abc_ack_response))"
proof -
  have h: "abc_disabled s = False \<longrightarrow> 9 \<le> length abc_ack_response" for s
    by (simp add: abc_ack_response_def)
  from scenario_b_publishes [OF h, of mhz19_initial]
    scenario_b_publishes [OF h, of "mhz19_initial\<lparr>temperature_sensor := True\<rparr>"] h
  show ?thesis
    by (simp add: mhz19_initial_def scenario_b_response_def scenario_b_checksum
        abc_ack_response_def)
qed

subsection \<open>A response with a wrong checksum\<close>

text \<open>
  Claim C1, as stated, fails: variant detection and the disable-ABC exchange come before
  the checksum comparison in \<^verbatim>\<open>update\<close>. On a fresh component, the response with status
  byte 0 and a wrong checksum passes the preamble and the boot guard, fails the checksum,
  and still leaves both \<open>model_b\<close> and \<open>abc_disabled\<close> changed from false to true.
\<close>

theorem checksum_mismatch_sets_model_b:
  "9 \<le> length scenario_c_response
   \<and> scenario_c_response ! 0 = 0xFF \<and> scenario_c_response ! 1 = 0x86
   \<and> unat (scenario_c_response ! 6) * 256 + unat (scenario_c_response ! 7) \<noteq> 15000
   \<and> scenario_c_response ! 8 \<noteq> mhz19_checksum scenario_c_response
   \<and> model_b mhz19_initial = False \<and> abc_disabled mhz19_initial = False
   \<and> model_b (fst (MHZ19Component_update mhz19_initial scenario_c_response abc_ack_response))
       = True
   \<and> abc_disabled
        (fst (MHZ19Component_update mhz19_initial scenario_c_response abc_ack_response))
       = True"
proof -
  have cs: "mhz19_checksum scenario_c_response = 0xC1"
    by (simp add: scenario_c_response_def mhz19_checksum_def mhz19_checksum_loop.simps
        MHZ19_REQUEST_LENGTH_def)
  show ?thesis
    by (simp add: cs)
       (simp add: scenario_c_response_def abc_ack_response_def mhz19_initial_def
        MHZ19Component_update_def mhz19_write_command_read update_validate_def cs
        [unfolded scenario_c_response_def])
qed

text \<open>
  Claim C1, amended. In an update cycle whose response passes the preamble and the boot
  guard but whose byte 8 differs from the recomputed checksum, and in which the
  acknowledgement of the disable-ABC command arrives if that command is sent, the update
  publishes nothing and ends by setting the warning. The sticky flags are never cleared,
  but they can be set: \<open>model_b\<close> holds afterwards when it held before or byte 5 is 0, and
  \<open>abc_disabled\<close> holds afterwards when it held before or \<open>model_b\<close> holds afterwards.
  Nothing else of the component changes.
\<close>

theorem checksum_mismatch_cycle:
  assumes "9 \<le> length rx" "rx ! 0 = 0xFF" "rx ! 1 = 0x86"
    and "unat (rx ! 6) * 256 + unat (rx ! 7) \<noteq> 15000"
    and "rx ! 8 \<noteq> mhz19_checksum rx"
    and "(model_b s \<or> rx ! 5 = 0) \<and> abc_disabled s = False \<longrightarrow> 9 \<le> length rx_ack"
  shows "published (snd (MHZ19Component_update s rx rx_ack)) = []
     \<and> last (snd (MHZ19Component_update s rx rx_ack)) = Status_set_warning
     \<and> warning (fst (MHZ19Component_update s rx rx_ack)) = True
     \<and> model_b (fst (MHZ19Component_update s rx rx_ack)) = (model_b s \<or> rx ! 5 = 0)
     \<and> abc_disabled (fst (MHZ19Component_update s rx rx_ack))
         = (abc_disabled s \<or> model_b s \<or> rx ! 5 = 0)
     \<and> temperature_sensor (fst (MHZ19Component_update s rx rx_ack)) = temperature_sensor s"
  using assms
  by (auto simp add: MHZ19Component_update_def mhz19_write_command_read update_validate_def
      status_u_unat mhz19_checksum_take Let_def)

text \<open>The hypotheses of the amended C1 at the response with a wrong last byte.\<close>

theorem checksum_mismatch_cycle_witness:
  "9 \<le> length scenario_c_response
   \<and> scenario_c_response ! 0 = 0xFF \<and> scenario_c_response ! 1 = 0x86
   \<and> unat (scenario_c_response ! 6) * 256 + unat (scenario_c_response ! 7) \<noteq> 15000
   \<and> scenario_c_response ! 8 \<noteq> mhz19_checksum scenario_c_response
   \<and> scenario_c_response ! 5 = 0 \<and> abc_disabled mhz19_initial = False
   \<and> 9 \<le> length abc_ack_response
   \<and> published (snd (MHZ19Component_update mhz19_initial scenario_c_response
         abc_ack_response)) = []
   \<and> warning (fst (MHZ19Component_update mhz19_initial scenario_c_response
         abc_ack_response)) = True"
proof -
  have cs: "mhz19_checksum scenario_c_response = 0xC1"
    by (simp add: scenario_c_response_def mhz19_checksum_def mhz19_checksum_loop.simps
        MHZ19_REQUEST_LENGTH_def)
  have h1: "9 \<le> length scenario_c_response"
    and h2: "scenario_c_response ! 0 = 0xFF" and h3: "scenario_c_response ! 1 = 0x86"
    and h4: "unat (scenario_c_response ! 6) * 256 + unat (scenario_c_response ! 7) \<noteq> 15000"
    by (simp_all add: scenario_c_response_def)
  have h5: "scenario_c_response ! 8 \<noteq> mhz19_checksum scenario_c_response"
    by (simp add: cs) (simp add: scenario_c_response_def)
  have h6: "scenario_c_response ! 5 = 0" "abc_disabled mhz19_initial = False"
    "9 \<le> length abc_ack_response"
    by (simp_all add: scenario_c_response_def mhz19_initial_def abc_ack_response_def)
  then have h7: "(model_b mhz19_initial \<or> scenario_c_response ! 5 = 0)
          \<and> abc_disabled mhz19_initial = False \<longrightarrow> 9 \<le> length abc_ack_response"
    by simp
  from checksum_mismatch_cycle [OF h1 h2 h3 h4 h5 h7] h1 h2 h3 h4 h5 h6 show ?thesis
    by blast
qed

subsection \<open>A lost acknowledgement of the disable-ABC command\<close>

lemma update_failures_set_warning:
  assumes "length rx < 9 \<or> rx ! 0 \<noteq> 0xFF \<or> rx ! 1 \<noteq> 0x86"
  shows "warning (fst (MHZ19Component_update s rx rx_ack)) = True
     \<and> last (snd (MHZ19Component_update s rx rx_ack)) = Status_set_warning
     \<and> published (snd (MHZ19Component_update s rx rx_ack)) = []"
  using assms
  by (auto simp add: MHZ19Component_update_def mhz19_write_command_read)

text \<open>
  Claim C2, where the code departs from it. When the response to the read command is
  complete, passes the preamble and the boot guard, the component is (or is now detected
  as) model B with \<open>abc_disabled\<close> unset, and fewer than nine bytes arrive in answer to the
  disable-ABC command, the cycle ends there: nothing is published and \<open>abc_disabled\<close> stays
  unset, as claimed, but \<^verbatim>\<open>status_set_warning\<close> is not called and the warning flag keeps the
  value it had. The returns after a failed read, a bad preamble and a bad checksum in the
  same function do set it (the lemma above and the amended C1).
\<close>

theorem abc_ack_failure_leaves_warning_unchanged:
  assumes "9 \<le> length rx" "rx ! 0 = 0xFF" "rx ! 1 = 0x86"
    and "unat (rx ! 6) * 256 + unat (rx ! 7) \<noteq> 15000"
    and "model_b s \<or> rx ! 5 = 0" "abc_disabled s = False"
    and "length rx_ack < 9"
  shows "warning (fst (MHZ19Component_update s rx rx_ack)) = warning s
     \<and> Status_set_warning \<notin> set (snd (MHZ19Component_update s rx rx_ack))
     \<and> abc_disabled (fst (MHZ19Component_update s rx rx_ack)) = False
     \<and> published (snd (MHZ19Component_update s rx rx_ack)) = []"
  using assms
  by (auto simp add: MHZ19Component_update_def mhz19_write_command_read status_u_unat Let_def)

text \<open>
  The failing input of C2: a fresh component, the valid response with status byte 0, and
  no answer to the disable-ABC command. The warning flag is clear afterwards.
\<close>

theorem abc_ack_failure_leaves_warning_unchanged_witness:
  "9 \<le> length scenario_b_response
   \<and> scenario_b_response ! 0 = 0xFF \<and> scenario_b_response ! 1 = 0x86
   \<and> unat (scenario_b_response ! 6) * 256 + unat (scenario_b_response ! 7) \<noteq> 15000
   \<and> scenario_b_response ! 5 = 0 \<and> abc_disabled mhz19_initial = False
   \<and> length ([] :: uint8_t list) < 9
   \<and> warning (fst (MHZ19Component_update mhz19_initial scenario_b_response [])) = False
   \<and> Status_set_warning \<notin> set (snd (MHZ19Component_update mhz19_initial
         scenario_b_response []))
   \<and> abc_disabled (fst (MHZ19Component_update mhz19_initial scenario_b_response [])) = False"
proof -
  have h: "9 \<le> length scenario_b_response" "scenario_b_response ! 0 = 0xFF"
    "scenario_b_response ! 1 = 0x86"
    "unat (scenario_b_response ! 6) * 256 + unat (scenario_b_response ! 7) \<noteq> 15000"
    "scenario_b_response ! 5 = 0" "abc_disabled mhz19_initial = False"
    "length ([] :: uint8_t list) < 9"
    by (simp_all add: scenario_b_response_def mhz19_initial_def)
  have w: "warning mhz19_initial = False"
    by (simp add: mhz19_initial_def)
  from h(5) have m: "model_b mhz19_initial \<or> scenario_b_response ! 5 = 0" by simp
  from abc_ack_failure_leaves_warning_unchanged [OF h(1-4) m h(6,7)] h w show ?thesis
    by simp
qed

end
